theory Spec2Isabelle
  imports Complex_Main
begin

section \<open>Python values\<close>

text \<open>
  The client is \<^verbatim>\<open>clients/python/gics_client.py\<close>, class \<^verbatim>\<open>GICSClient\<close>.
  A \<^verbatim>\<open>bytes\<close> object is a list of bytes, a \<^verbatim>\<open>str\<close> a list of characters; both are
  \<^typ>\<open>string\<close> here. What \<^verbatim>\<open>json.loads\<close> returns is a value of type \<open>json\<close>: a Python
  \<^verbatim>\<open>dict\<close> is an association list read with \<^const>\<open>map_of\<close>, a Python \<^verbatim>\<open>float\<close> is a
  rational or one of the three special values the parser accepts.
\<close>

type_synonym bytes = string

datatype pyfloat = Finite rat | PosInf | NegInf | NaN

datatype json =
    JNull
  | JBool bool
  | JInt int
  | JFloat pyfloat
  | JStr string
  | JArr "json list"
  | JObj "(string \<times> json) list"

text \<open>Truth value testing, as \<^verbatim>\<open>if x:\<close> and \<^verbatim>\<open>x or y\<close> perform it.\<close>

fun truthy :: "json \<Rightarrow> bool" where
  "truthy JNull = False"
| "truthy (JBool b) = b"
| "truthy (JInt i) = (i \<noteq> 0)"
| "truthy (JFloat f) = (f \<noteq> Finite 0)"
| "truthy (JStr s) = (s \<noteq> [])"
| "truthy (JArr xs) = (xs \<noteq> [])"
| "truthy (JObj kvs) = (kvs \<noteq> [])"

text \<open>
  The exceptions the client raises or lets through. \<open>RuntimeError code message\<close> stands
  for \<^verbatim>\<open>RuntimeError(f"GICS error {code}: {message}")\<close>; \<open>ConnectionResetError\<close> carries
  its message, so that the client's own raise is told from the operating system's.
\<close>

datatype exn =
    OSError
  | FileNotFoundError
  | ConnectionRefusedError
  | ConnectionResetError string
  | BrokenPipeError
  | TimeoutError
  | JSONDecodeError
  | UnicodeDecodeError
  | AttributeError
  | TypeError
  | ValueError
  | RuntimeError json json

text \<open>The class hierarchy: \<^verbatim>\<open>isinstance(e, ConnectionError)\<close> and so on.\<close>

fun is_ConnectionError :: "exn \<Rightarrow> bool" where
  "is_ConnectionError ConnectionRefusedError = True"
| "is_ConnectionError (ConnectionResetError m) = True"
| "is_ConnectionError BrokenPipeError = True"
| "is_ConnectionError e = False"

fun is_OSError :: "exn \<Rightarrow> bool" where
  "is_OSError OSError = True"
| "is_OSError FileNotFoundError = True"
| "is_OSError TimeoutError = True"
| "is_OSError e = is_ConnectionError e"

text \<open>
  Line 163: \<^verbatim>\<open>except (OSError, ConnectionError, TimeoutError, json.JSONDecodeError)\<close>;
  line 168: \<^verbatim>\<open>except (FileNotFoundError, ConnectionRefusedError, OSError, json.JSONDecodeError)\<close>.
\<close>

definition except_inner :: "exn \<Rightarrow> bool" where
  "except_inner e \<longleftrightarrow>
     is_OSError e \<or> is_ConnectionError e \<or> e = TimeoutError \<or> e = JSONDecodeError"

definition except_outer :: "exn \<Rightarrow> bool" where
  "except_outer e \<longleftrightarrow>
     e = FileNotFoundError \<or> e = ConnectionRefusedError \<or> is_OSError e \<or> e = JSONDecodeError"

text \<open>\<^verbatim>\<open>obj.get(key, default)\<close>: only a dict has the method.\<close>

definition py_get :: "json \<Rightarrow> string \<Rightarrow> json \<Rightarrow> exn + json" where
  "py_get obj k d =
     (case obj of
        JObj kvs \<Rightarrow> Inr (case map_of kvs k of None \<Rightarrow> d | Some v \<Rightarrow> v)
      | _ \<Rightarrow> Inl AttributeError)"

text \<open>Sequencing of two steps of which the first may raise.\<close>

definition and_then :: "exn + 'a \<Rightarrow> ('a \<Rightarrow> exn + 'b) \<Rightarrow> exn + 'b" where
  "and_then r f = (case r of Inl e \<Rightarrow> Inl e | Inr v \<Rightarrow> f v)"

text \<open>
  \<^verbatim>\<open>_unwrap_result\<close> (lines 180-185). Once \<^verbatim>\<open>response.get('error')\<close> is truthy the key is
  there, so the subscript \<^verbatim>\<open>response['error']\<close> yields the same value.
\<close>

definition unwrap_result :: "json \<Rightarrow> exn + json" where
  "unwrap_result response =
     and_then (py_get response ''error'' JNull) (\<lambda>err.
       if truthy err then
         and_then (py_get err ''code'' (JInt (- 1))) (\<lambda>code.
         and_then (py_get err ''message'' (JStr ''Unknown error'')) (\<lambda>message.
           Inl (RuntimeError code message)))
       else py_get response ''result'' JNull)"

text \<open>\<^verbatim>\<open>str.strip()\<close>, on characters below 256.\<close>

definition py_isspace :: "char \<Rightarrow> bool" where
  "py_isspace ch \<longleftrightarrow>
     (of_char ch :: nat) \<in> {9, 10, 11, 12, 13, 28, 29, 30, 31, 32, 133, 160}"

definition strip :: "string \<Rightarrow> string" where
  "strip s = rev (dropWhile py_isspace (rev (dropWhile py_isspace s)))"

definition newline :: char where
  "newline = CHR 0x0A"

section \<open>The outside world\<close>

text \<open>
  A socket is named by the index of the \<^verbatim>\<open>_open_unix_socket\<close> call that made it, a pipe
  handle by the index of the \<^verbatim>\<open>open\<close> call. The record \<open>env\<close> says how the outside
  answers: the file system (\<open>files E p\<close> is the text of the file \<open>p\<close> when it exists),
  the library's JSON and UTF-8 functions, and for every socket the outcome of its
  k-th \<^verbatim>\<open>sendall\<close> and k-th \<^verbatim>\<open>recv\<close>. \<^verbatim>\<open>json.dumps\<close> escapes every non-ASCII
  character, so encoding its output to UTF-8 changes no byte.
\<close>

type_synonym sock = nat

record env =
  os_nt :: bool
  home_token :: string
  files :: "string \<Rightarrow> string option"
  json_dumps :: "json \<Rightarrow> string"
  json_loads :: "string \<Rightarrow> json option"
  utf8_decode :: "bytes \<Rightarrow> string option"
  connect_result :: "nat \<Rightarrow> exn option"
  sendall_result :: "sock \<Rightarrow> nat \<Rightarrow> exn option"
  recv_result :: "sock \<Rightarrow> nat \<Rightarrow> exn + bytes"
  pipe_open_result :: "nat \<Rightarrow> exn option"
  pipe_write_result :: "nat \<Rightarrow> exn option"
  pipe_readline_result :: "nat \<Rightarrow> exn + bytes"

text \<open>
  What has happened so far. The trace lists the calls made to the outside in order;
  \<open>EvAttempt\<close> is a ghost event marking the start of one iteration of the retry loop.
\<close>

datatype event =
    EvExists string
  | EvOpenRead string
  | EvConnect sock
  | EvSendall sock bytes
  | EvRecv sock
  | EvClose sock
  | EvPipeOpen nat
  | EvPipeWrite nat bytes
  | EvPipeReadline nat
  | EvPipeClose nat
  | EvSleep rat
  | EvAttempt int

record world =
  sockets_made :: nat
  sends_done :: "sock \<Rightarrow> nat"
  recvs_done :: "sock \<Rightarrow> nat"
  closed :: "sock set"
  pipes_opened :: nat
  trace :: "event list"

definition log :: "event \<Rightarrow> world \<Rightarrow> world" where
  "log ev w = w\<lparr>trace := trace w @ [ev]\<rparr>"

definition world0 :: world where
  "world0 = \<lparr>sockets_made = 0, sends_done = (\<lambda>s. 0), recvs_done = (\<lambda>s. 0),
             closed = {}, pipes_opened = 0, trace = []\<rparr>"

text \<open>\<^verbatim>\<open>time.sleep(d)\<close> raises \<^verbatim>\<open>ValueError\<close> for a negative \<^verbatim>\<open>d\<close>.\<close>

definition time_sleep :: "rat \<Rightarrow> world \<Rightarrow> exn option \<times> world" where
  "time_sleep d w = (if d < 0 then (Some ValueError, w) else (None, log (EvSleep d) w))"

text \<open>
  \<^verbatim>\<open>s.close()\<close>: the handle is gone afterwards whether or not the call reports an
  error, and every caller in the client swallows that error.
\<close>

definition sock_close :: "sock \<Rightarrow> world \<Rightarrow> world" where
  "sock_close s w = log (EvClose s) (w\<lparr>closed := insert s (closed w)\<rparr>)"

definition sendall :: "env \<Rightarrow> sock \<Rightarrow> bytes \<Rightarrow> world \<Rightarrow> exn option \<times> world" where
  "sendall E s payload w =
     (let k = sends_done w s;
          w1 = log (EvSendall s payload) (w\<lparr>sends_done := (sends_done w)(s := k + 1)\<rparr>)
      in if s \<in> closed w then (Some OSError, w1) else (sendall_result E s k, w1))"

definition recv :: "env \<Rightarrow> sock \<Rightarrow> world \<Rightarrow> (exn + bytes) \<times> world" where
  "recv E s w =
     (let k = recvs_done w s;
          w1 = log (EvRecv s) (w\<lparr>recvs_done := (recvs_done w)(s := k + 1)\<rparr>)
      in if s \<in> closed w then (Inl OSError, w1) else (recv_result E s k, w1))"

section \<open>The client\<close>

record client =
  address :: string
  token :: "string option"
  request_id :: int
  max_retries :: int
  retry_delay :: rat
  request_timeout :: rat
  pool_size :: int
  pool :: "sock list"

text \<open>\<^verbatim>\<open>__init__\<close> (lines 15-45), with \<^verbatim>\<open>pool_size\<close> an integer. The default pipe name
  has a backslash (byte 0x5C) before and after the dot, and around \<^verbatim>\<open>pipe\<close>.\<close>

definition default_pipe :: string where
  "default_pipe = [CHR 0x5C, CHR 0x5C, CHR ''.'', CHR 0x5C] @ ''pipe'' @ [CHR 0x5C] @ ''gics''"

definition init :: "env \<Rightarrow> string option \<Rightarrow> string option \<Rightarrow> int \<Rightarrow> rat \<Rightarrow> rat \<Rightarrow> int \<Rightarrow> client" where
  "init E address_arg token_arg max_retries_arg retry_delay_arg request_timeout_arg pool_size_arg =
     \<lparr>address = (case address_arg of
                   None \<Rightarrow> (if os_nt E then default_pipe else ''/tmp/gics.sock'')
                 | Some a \<Rightarrow> a),
      token = token_arg,
      request_id = 1,
      max_retries = max_retries_arg,
      retry_delay = retry_delay_arg,
      request_timeout = request_timeout_arg,
      pool_size = max 1 pool_size_arg,
      pool = []\<rparr>"

text \<open>\<^verbatim>\<open>_next_request_id\<close> (lines 47-51), run by one caller at a time.\<close>

definition next_request_id :: "client \<Rightarrow> int \<times> client" where
  "next_request_id c = (request_id c, c\<lparr>request_id := request_id c + 1\<rparr>)"

text \<open>\<^verbatim>\<open>_get_token\<close> (lines 53-68).\<close>

definition token_paths :: "env \<Rightarrow> string list" where
  "token_paths E = [''.gics_token'', home_token E, ''../.gics_token'']"

fun probe_paths :: "env \<Rightarrow> string list \<Rightarrow> client \<Rightarrow> world \<Rightarrow> string option \<times> client \<times> world" where
  "probe_paths E [] c w = (None, c, w)"
| "probe_paths E (p # ps) c w =
     (case files E p of
        None \<Rightarrow> probe_paths E ps c (log (EvExists p) w)
      | Some content \<Rightarrow>
          (Some (strip content), c\<lparr>token := Some (strip content)\<rparr>,
           log (EvOpenRead p) (log (EvExists p) w)))"

definition get_token :: "env \<Rightarrow> client \<Rightarrow> world \<Rightarrow> string option \<times> client \<times> world" where
  "get_token E c w =
     (if token c \<noteq> None \<and> token c \<noteq> Some [] then (token c, c, w)
      else probe_paths E (token_paths E) c w)"

text \<open>\<^verbatim>\<open>_open_unix_socket\<close>, \<^verbatim>\<open>_acquire_unix_socket\<close>, \<^verbatim>\<open>_release_unix_socket\<close>, \<^verbatim>\<open>close\<close>
  (lines 70-112).\<close>

definition open_unix_socket :: "env \<Rightarrow> client \<Rightarrow> world \<Rightarrow> (exn + sock) \<times> world" where
  "open_unix_socket E c w =
     (let n = sockets_made w;
          w1 = log (EvConnect n) (w\<lparr>sockets_made := n + 1\<rparr>)
      in case connect_result E n of Some e \<Rightarrow> (Inl e, w1) | None \<Rightarrow> (Inr n, w1))"

definition acquire_unix_socket :: "env \<Rightarrow> client \<Rightarrow> world \<Rightarrow> (exn + sock) \<times> client \<times> world" where
  "acquire_unix_socket E c w =
     (if pool c \<noteq> [] then (Inr (last (pool c)), c\<lparr>pool := butlast (pool c)\<rparr>, w)
      else (fst (open_unix_socket E c w), c, snd (open_unix_socket E c w)))"

definition release_unix_socket :: "sock option \<Rightarrow> bool \<Rightarrow> client \<Rightarrow> world \<Rightarrow> client \<times> world" where
  "release_unix_socket so healthy c w =
     (case so of
        None \<Rightarrow> (c, w)
      | Some s \<Rightarrow>
          if \<not> healthy then (c, sock_close s w)
          else if int (length (pool c)) < pool_size c then (c\<lparr>pool := pool c @ [s]\<rparr>, w)
          else (c, sock_close s w))"

definition close_client :: "client \<Rightarrow> world \<Rightarrow> client \<times> world" where
  "close_client c w = (c\<lparr>pool := []\<rparr>, fold sock_close (pool c) w)"

section \<open>One call\<close>

text \<open>
  The read loop of lines 150-159. The daemon may send chunks without a newline for
  ever, so the loop is a partial function: \<open>None\<close> is a run that never leaves it. The
  flag returned is the variable \<^verbatim>\<open>healthy\<close> when the loop is left.
\<close>

partial_function (option) recv_until_newline ::
  "env \<Rightarrow> sock \<Rightarrow> bytes \<Rightarrow> world \<Rightarrow> ((exn + bytes) \<times> bool \<times> world) option" where
  "recv_until_newline E s buffer w =
     (let r = recv E s w in
      case fst r of
        Inl e \<Rightarrow> Some (Inl e, True, snd r)
      | Inr chunk \<Rightarrow>
          if chunk = [] then
            Some (Inl (ConnectionResetError ''Daemon closed IPC socket''), False, snd r)
          else if newline \<in> set (buffer @ chunk) then Some (Inr (buffer @ chunk), True, snd r)
          else recv_until_newline E s (buffer @ chunk) (snd r))"

text \<open>\<^verbatim>\<open>json.loads(response_line.decode('utf-8'))\<close>.\<close>

definition decode_response :: "env \<Rightarrow> bytes \<Rightarrow> exn + json" where
  "decode_response E response_line =
     (case utf8_decode E response_line of
        None \<Rightarrow> Inl UnicodeDecodeError
      | Some text \<Rightarrow>
          (case json_loads E text of None \<Rightarrow> Inl JSONDecodeError | Some v \<Rightarrow> Inr v))"

text \<open>The body of the inner \<^verbatim>\<open>try\<close> (lines 148-162): \<^verbatim>\<open>buffer.split(b'\n')[0]\<close> is
  the part of the buffer before its first newline.\<close>

definition unix_exchange ::
  "env \<Rightarrow> sock \<Rightarrow> bytes \<Rightarrow> world \<Rightarrow> ((exn + json) \<times> bool \<times> world) option" where
  "unix_exchange E s payload w =
     (case fst (sendall E s payload w) of
        Some e \<Rightarrow> Some (Inl e, True, snd (sendall E s payload w))
      | None \<Rightarrow>
          (case recv_until_newline E s [] (snd (sendall E s payload w)) of
             None \<Rightarrow> None
           | Some (Inl e, healthy, w2) \<Rightarrow> Some (Inl e, healthy, w2)
           | Some (Inr buffer, healthy, w2) \<Rightarrow>
               Some (decode_response E (takeWhile (\<lambda>b. b \<noteq> newline) buffer), healthy, w2)))"

text \<open>The inner \<^verbatim>\<open>try\<close> with its handler (lines 147-165), which clears \<^verbatim>\<open>healthy\<close> and
  raises the exception again.\<close>

definition unix_guarded ::
  "env \<Rightarrow> sock \<Rightarrow> bytes \<Rightarrow> world \<Rightarrow> ((exn + json) \<times> bool \<times> world) option" where
  "unix_guarded E s payload w =
     (case unix_exchange E s payload w of
        None \<Rightarrow> None
      | Some (Inl e, healthy, w2) \<Rightarrow> Some (Inl e, (if except_inner e then False else healthy), w2)
      | Some (Inr v, healthy, w2) \<Rightarrow> Some (Inr v, healthy, w2))"

text \<open>The socket branch of one attempt (lines 143-167): when the acquire raises,
  \<^verbatim>\<open>s\<close> is still \<^verbatim>\<open>None\<close> in the \<^verbatim>\<open>finally\<close> clause.\<close>

definition unix_attempt ::
  "env \<Rightarrow> bytes \<Rightarrow> client \<Rightarrow> world \<Rightarrow> ((exn + json) \<times> client \<times> world) option" where
  "unix_attempt E payload c w =
     (case acquire_unix_socket E c w of
        (Inl e, c1, w1) \<Rightarrow>
          Some (Inl e, fst (release_unix_socket None True c1 w1),
                snd (release_unix_socket None True c1 w1))
      | (Inr s, c1, w1) \<Rightarrow>
          (case unix_guarded E s payload w1 of
             None \<Rightarrow> None
           | Some (r, healthy, w2) \<Rightarrow>
               Some (r, fst (release_unix_socket (Some s) healthy c1 w2),
                     snd (release_unix_socket (Some s) healthy c1 w2))))"

text \<open>The pipe branch (lines 137-140); leaving the \<^verbatim>\<open>with\<close> block closes the handle.\<close>

definition pipe_attempt :: "env \<Rightarrow> bytes \<Rightarrow> world \<Rightarrow> (exn + json) \<times> world" where
  "pipe_attempt E payload w =
     (let k = pipes_opened w;
          w1 = log (EvPipeOpen k) (w\<lparr>pipes_opened := k + 1\<rparr>)
      in case pipe_open_result E k of
           Some e \<Rightarrow> (Inl e, w1)
         | None \<Rightarrow>
             (case pipe_write_result E k of
                Some e \<Rightarrow> (Inl e, log (EvPipeClose k) (log (EvPipeWrite k payload) w1))
              | None \<Rightarrow>
                  (case pipe_readline_result E k of
                     Inl e \<Rightarrow>
                       (Inl e, log (EvPipeClose k) (log (EvPipeReadline k)
                                 (log (EvPipeWrite k payload) w1)))
                   | Inr response_line \<Rightarrow>
                       (decode_response E response_line,
                        log (EvPipeClose k) (log (EvPipeReadline k)
                          (log (EvPipeWrite k payload) w1))))))"

definition attempt_once ::
  "env \<Rightarrow> bytes \<Rightarrow> client \<Rightarrow> world \<Rightarrow> ((exn + json) \<times> client \<times> world) option" where
  "attempt_once E payload c w =
     (if os_nt E then Some (fst (pipe_attempt E payload w), c, snd (pipe_attempt E payload w))
      else unix_attempt E payload c w)"

text \<open>
  The retry loop (lines 132-175) over the values of \<^verbatim>\<open>range(self._max_retries + 1)\<close>.
  When the range is empty, \<^verbatim>\<open>raise last_error\<close> raises \<^verbatim>\<open>None\<close>, which is a
  \<^verbatim>\<open>TypeError\<close>.
\<close>

fun retry_loop ::
  "env \<Rightarrow> bytes \<Rightarrow> int list \<Rightarrow> exn option \<Rightarrow> client \<Rightarrow> world
     \<Rightarrow> ((exn + json) \<times> client \<times> world) option" where
  "retry_loop E payload [] last_error c w =
     Some (Inl (case last_error of None \<Rightarrow> TypeError | Some e \<Rightarrow> e), c, w)"
| "retry_loop E payload (attempt # rest) last_error c w =
     (case attempt_once E payload c (log (EvAttempt attempt) w) of
        None \<Rightarrow> None
      | Some (Inr response, c1, w1) \<Rightarrow> Some (Inr response, c1, w1)
      | Some (Inl e, c1, w1) \<Rightarrow>
          if except_outer e then
            (if attempt < max_retries c then
               (case fst (time_sleep (retry_delay c) w1) of
                  Some e' \<Rightarrow> Some (Inl e', c1, snd (time_sleep (retry_delay c) w1))
                | None \<Rightarrow>
                    retry_loop E payload rest (Some e) c1 (snd (time_sleep (retry_delay c) w1)))
             else Some (Inl e, c1, w1))
          else Some (Inl e, c1, w1))"

text \<open>\<^verbatim>\<open>_call\<close> (lines 120-175). Lines 121-130 build the payload: the dictionary
  literal takes the id before it resolves the token. Lines 132-175 are the loop.\<close>

definition make_request :: "string \<Rightarrow> json \<Rightarrow> int \<Rightarrow> string option \<Rightarrow> json" where
  "make_request method params rid tok =
     JObj [(''jsonrpc'', JStr ''2.0''),
           (''method'', JStr method),
           (''params'', params),
           (''id'', JInt rid),
           (''token'', (case tok of None \<Rightarrow> JNull | Some t \<Rightarrow> JStr t))]"

definition encode_request :: "env \<Rightarrow> json \<Rightarrow> bytes" where
  "encode_request E request = json_dumps E request @ [newline]"

definition prepare :: "env \<Rightarrow> string \<Rightarrow> json \<Rightarrow> client \<Rightarrow> world \<Rightarrow> bytes \<times> client \<times> world" where
  "prepare E method params c w =
     (case get_token E (snd (next_request_id c)) w of
        (tok, c2, w2) \<Rightarrow>
          (encode_request E
             (make_request method (if truthy params then params else JObj [])
                (fst (next_request_id c)) tok),
           c2, w2))"

definition call ::
  "env \<Rightarrow> string \<Rightarrow> json \<Rightarrow> client \<Rightarrow> world \<Rightarrow> ((exn + json) \<times> client \<times> world) option" where
  "call E method params c w =
     (case prepare E method params c w of
        (payload, c2, w2) \<Rightarrow> retry_loop E payload [0..max_retries c2] None c2 w2)"

section \<open>The methods\<close>

text \<open>Every method calls \<^verbatim>\<open>_call\<close> and passes the response on; \<open>on_response\<close> is that
  hand-over, with the exception of \<^verbatim>\<open>_call\<close> passed through.\<close>

definition on_response ::
  "((exn + json) \<times> client \<times> world) option \<Rightarrow> (json \<Rightarrow> exn + json)
     \<Rightarrow> ((exn + json) \<times> client \<times> world) option" where
  "on_response r f =
     (case r of
        None \<Rightarrow> None
      | Some (Inl e, c, w) \<Rightarrow> Some (Inl e, c, w)
      | Some (Inr resp, c, w) \<Rightarrow> Some (f resp, c, w))"

definition put where
  "put E key field_map c w =
     on_response (call E ''put'' (JObj [(''key'', key), (''fields'', field_map)]) c w)
       (\<lambda>resp. and_then (unwrap_result resp) (\<lambda>r. py_get r ''ok'' (JBool False)))"

definition get where
  "get E key c w =
     on_response (call E ''get'' (JObj [(''key'', key)]) c w) unwrap_result"

definition delete where
  "delete E key c w =
     on_response (call E ''delete'' (JObj [(''key'', key)]) c w)
       (\<lambda>resp. and_then (unwrap_result resp) (\<lambda>r. py_get r ''ok'' (JBool False)))"

definition scan where
  "scan E prefix c w =
     on_response (call E ''scan'' (JObj [(''prefix'', prefix)]) c w)
       (\<lambda>resp. and_then (unwrap_result resp) (\<lambda>r. py_get r ''items'' (JArr [])))"

definition report_outcome where
  "report_outcome E insight_id result context c w =
     on_response
       (call E ''reportOutcome''
          (JObj ([(''insightId'', insight_id), (''result'', result)]
                 @ (if context \<noteq> JNull then [(''context'', context)] else []))) c w)
       (\<lambda>resp. and_then (unwrap_result resp) (\<lambda>r. py_get r ''ok'' (JBool False)))"

definition subscribe where
  "subscribe E event_types c w =
     on_response (call E ''subscribe'' (JObj [(''events'', event_types)]) c w)
       (\<lambda>resp. and_then (unwrap_result resp) (\<lambda>r. py_get r ''subscriptionId'' JNull))"

definition unsubscribe where
  "unsubscribe E subscription_id c w =
     on_response (call E ''unsubscribe'' (JObj [(''subscriptionId'', subscription_id)]) c w)
       (\<lambda>resp. and_then (unwrap_result resp) (\<lambda>r. py_get r ''ok'' (JBool False)))"

definition ping where
  "ping E c w = on_response (call E ''ping'' JNull c w) unwrap_result"

section \<open>Concurrent callers of the id counter\<close>







section \<open>Vocabulary of the properties\<close>

text \<open>The socket an event is about; the events of the retry loop itself; the events
  of the transport.\<close>

fun ev_sock :: "event \<Rightarrow> sock option" where
  "ev_sock (EvConnect s) = Some s"
| "ev_sock (EvSendall s b) = Some s"
| "ev_sock (EvRecv s) = Some s"
| "ev_sock (EvClose s) = Some s"
| "ev_sock ev = None"

fun is_control :: "event \<Rightarrow> bool" where
  "is_control (EvAttempt a) = True"
| "is_control (EvSleep d) = True"
| "is_control ev = False"

fun is_file :: "event \<Rightarrow> bool" where
  "is_file (EvExists p) = True"
| "is_file (EvOpenRead p) = True"
| "is_file ev = False"

definition io_on :: "(sock \<Rightarrow> bool) \<Rightarrow> event \<Rightarrow> bool" where
  "io_on P ev \<longleftrightarrow>
     \<not> is_control ev \<and> \<not> is_file ev \<and> (case ev_sock ev of None \<Rightarrow> True | Some s \<Rightarrow> P s)"

text \<open>The events logged between two worlds, and the statement that the later trace
  extends the earlier one by events that all satisfy \<open>Q\<close>.\<close>

definition new_events :: "world \<Rightarrow> world \<Rightarrow> event list" where
  "new_events w w' = drop (length (trace w)) (trace w')"

definition added :: "(event \<Rightarrow> bool) \<Rightarrow> world \<Rightarrow> world \<Rightarrow> bool" where
  "added Q w w' \<longleftrightarrow> trace w' = trace w @ new_events w w' \<and> list_all Q (new_events w w')"

text \<open>What holds of the pool between calls: the capacity is at least one, the idle
  connections are within it, no connection is idle twice, and every idle connection
  was made earlier.\<close>

definition client_ok :: "client \<Rightarrow> world \<Rightarrow> bool" where
  "client_ok c w \<longleftrightarrow>
     1 \<le> pool_size c \<and> int (length (pool c)) \<le> pool_size c \<and> distinct (pool c) \<and>
     list_all (\<lambda>s. s < sockets_made w) (pool c)"

text \<open>The control events of \<open>n + 1\<close> attempts that all failed: attempt \<open>a\<close>, a sleep,
  attempt \<open>a + 1\<close>, and so on, with no sleep after the last.\<close>

fun retry_pattern :: "rat \<Rightarrow> int \<Rightarrow> nat \<Rightarrow> event list" where
  "retry_pattern d a 0 = [EvAttempt a]"
| "retry_pattern d a (Suc n) = EvAttempt a # EvSleep d # retry_pattern d (a + 1) n"

text \<open>A sequence of releases, and what the client can do later: sleep, run the rest
  of a retry loop, make a call, close.\<close>

fun release_all :: "(sock option \<times> bool) list \<Rightarrow> client \<Rightarrow> world \<Rightarrow> client \<times> world" where
  "release_all [] c w = (c, w)"
| "release_all (r # rs) c w =
     release_all rs (fst (release_unix_socket (fst r) (snd r) c w))
                    (snd (release_unix_socket (fst r) (snd r) c w))"

inductive later :: "env \<Rightarrow> client \<Rightarrow> world \<Rightarrow> client \<Rightarrow> world \<Rightarrow> bool" where
  later_now: "later E c w c w"
| later_sleep: "later E c w c1 w1 \<Longrightarrow> time_sleep d w1 = (None, w2) \<Longrightarrow> later E c w c1 w2"
| later_retry: "later E c w c1 w1 \<Longrightarrow> retry_loop E payload attempts last_error c1 w1 = Some (r, c2, w2)
     \<Longrightarrow> later E c w c2 w2"
| later_call: "later E c w c1 w1 \<Longrightarrow> call E method params c1 w1 = Some (r, c2, w2)
     \<Longrightarrow> later E c w c2 w2"
| later_close: "later E c w c1 w1 \<Longrightarrow> close_client c1 w1 = (c2, w2)
     \<Longrightarrow> later E c w c2 w2"

text \<open>The connections an acquire can still return: the idle ones and those not made
  yet.\<close>

definition obtainable :: "client \<Rightarrow> world \<Rightarrow> sock set" where
  "obtainable c w = set (pool c) \<union> {x. sockets_made w \<le> x}"



section \<open>Sample environments\<close>

text \<open>A daemon for the examples: what it answers is given by \<open>conn\<close> and \<open>rcv\<close>; its
  JSON library knows three frames.\<close>

definition demo_loads :: "string \<Rightarrow> json option" where
  "demo_loads s =
     (if s = ''E'' then
        Some (JObj [(''id'', JInt 1),
                    (''error'', JObj [(''code'', JInt 7), (''message'', JStr ''boom'')])])
      else if s = ''N'' then Some (JObj [(''id'', JInt 1)])
      else if s = ''R'' then
        Some (JObj [(''id'', JInt 1), (''result'', JObj [(''ok'', JBool True)])])
      else None)"

definition demo_env ::
  "(string \<Rightarrow> string option) \<Rightarrow> (nat \<Rightarrow> exn option) \<Rightarrow> (sock \<Rightarrow> nat \<Rightarrow> exn + bytes) \<Rightarrow> env" where
  "demo_env fs conn rcv =
     \<lparr>os_nt = False, home_token = ''/home/u/.gics_token'', files = fs,
      json_dumps = (\<lambda>j. ''req''), json_loads = demo_loads, utf8_decode = Some,
      connect_result = conn, sendall_result = (\<lambda>s k. None), recv_result = rcv,
      pipe_open_result = (\<lambda>k. Some FileNotFoundError), pipe_write_result = (\<lambda>k. None),
      pipe_readline_result = (\<lambda>k. Inr [])\<rparr>"

definition demo_client :: "string option \<Rightarrow> int \<Rightarrow> rat \<Rightarrow> client" where
  "demo_client tok r d = init (demo_env (\<lambda>p. None) (\<lambda>n. None) (\<lambda>s k. Inr [])) None tok r d 5 4"




section \<open>Shared lemmas\<close>

lemma py_get_obj: "py_get (JObj kvs) k d = Inr (case map_of kvs k of None \<Rightarrow> d | Some v \<Rightarrow> v)"
  by (simp add: py_get_def)

lemma py_get_null: "py_get JNull k d = Inl AttributeError"
  by (simp add: py_get_def)

lemma unwrap_result_falsy:
  "map_of kvs ''error'' = None \<or> (\<exists>v. map_of kvs ''error'' = Some v \<and> \<not> truthy v) \<Longrightarrow>
   unwrap_result (JObj kvs) = Inr (case map_of kvs ''result'' of None \<Rightarrow> JNull | Some v \<Rightarrow> v)"
  by (auto simp: unwrap_result_def and_then_def py_get_obj)


lemma on_response_Inr: "r = Some (Inr resp, c', w') \<Longrightarrow> on_response r f = Some (f resp, c', w')"
  by (simp add: on_response_def)

lemma upto_from_0: "0 \<le> r \<Longrightarrow> [0..r] = 0 # [1..r]"
  by (simp add: upto_rec1)

lemma tw_all: "newline \<notin> set frame \<Longrightarrow> takeWhile (\<lambda>b. b \<noteq> newline) frame = frame"
  by (induction frame) auto

lemma demo_call:
  assumes "newline \<notin> set frame" and "demo_loads frame = Some v" and "0 \<le> r"
  shows "call (demo_env (\<lambda>p. None) (\<lambda>n. None) (\<lambda>s k. Inr (frame @ [newline] @ junk))) m p
           (demo_client (Some ''tok'') r d) world0 =
         Some (Inr v, (demo_client (Some ''tok'') r d)\<lparr>request_id := 2, pool := [0]\<rparr>,
               world0\<lparr>sockets_made := 1, sends_done := (\<lambda>s. 0)(0 := 1), recvs_done := (\<lambda>s. 0)(0 := 1),
                 trace := [EvAttempt 0, EvConnect 0,
                   EvSendall 0 (''req'' @ [newline]), EvRecv 0]\<rparr>)"
  using assms
  by (simp add: call_def prepare_def init_def demo_env_def demo_client_def world0_def next_request_id_def get_token_def
      upto_from_0 unix_attempt_def attempt_once_def acquire_unix_socket_def open_unix_socket_def log_def
      unix_guarded_def unix_exchange_def sendall_def recv_def recv_until_newline.simps
      decode_response_def release_unix_socket_def encode_request_def takeWhile_tail tw_all)



lemma demo_loads_N: "demo_loads ''N'' = Some (JObj [(''id'', JInt 1)])"
  by (simp add: demo_loads_def)

lemma demo_loads_E: "demo_loads ''E'' = Some (JObj [(''id'', JInt 1),
                    (''error'', JObj [(''code'', JInt 7), (''message'', JStr ''boom'')])])"
  by (simp add: demo_loads_def)

lemma newline_not_in_R: "newline \<notin> set ''R''" "newline \<notin> set ''N''" "newline \<notin> set ''E''"
  by (simp_all add: newline_def)









lemma release_all_props:
  "int (length (pool c)) \<le> pool_size c \<Longrightarrow>
   int (length (pool (fst (release_all rs c w)))) \<le> pool_size c \<and>
   pool_size (fst (release_all rs c w)) = pool_size c \<and>
   set (pool c) \<subseteq> set (pool (fst (release_all rs c w))) \<and>
   closed w \<subseteq> closed (snd (release_all rs c w)) \<and>
   (\<forall>s h. (Some s, h) \<in> set rs \<longrightarrow>
      s \<in> set (pool (fst (release_all rs c w))) \<or> s \<in> closed (snd (release_all rs c w)))"
proof (induction rs arbitrary: c w)
  case Nil
  then show ?case by simp
next
  case (Cons r rs)
  obtain so h where r: "r = (so, h)" by (cases r)
  let ?c1 = "fst (release_unix_socket so h c w)"
  let ?w1 = "snd (release_unix_socket so h c w)"
  have step: "int (length (pool ?c1)) \<le> pool_size ?c1" "pool_size ?c1 = pool_size c"
    "set (pool c) \<subseteq> set (pool ?c1)" "closed w \<subseteq> closed ?w1"
    "\<And>s. so = Some s \<Longrightarrow> s \<in> set (pool ?c1) \<or> s \<in> closed ?w1"
    using Cons.prems
    by (auto simp: release_unix_socket_def sock_close_def log_def split: option.splits)
  from Cons.IH [of ?c1 ?w1] step show ?case
    by (auto simp: r)
qed


section \<open>The claims\<close>




text \<open>
  Claim C10. When a response object has no \<^verbatim>\<open>error\<close> field, or a falsy one, and its
  \<^verbatim>\<open>result\<close> field is absent or null, \<^verbatim>\<open>_unwrap_result\<close> returns \<^verbatim>\<open>None\<close>, and
  \<^verbatim>\<open>put\<close>, \<^verbatim>\<open>delete\<close>, \<^verbatim>\<open>scan\<close>, \<^verbatim>\<open>report_outcome\<close>, \<^verbatim>\<open>subscribe\<close> and
  \<^verbatim>\<open>unsubscribe\<close> raise \<^verbatim>\<open>AttributeError\<close> from their \<^verbatim>\<open>.get\<close> on it: none of them
  returns its default.
\<close>

theorem null_result_attribute_error:
  "(map_of kvs ''error'' = None \<or> (\<exists>v. map_of kvs ''error'' = Some v \<and> \<not> truthy v)) \<and>
   (map_of kvs ''result'' = None \<or> map_of kvs ''result'' = Some JNull) \<longrightarrow>
     unwrap_result (JObj kvs) = Inr JNull
   \<and> (call E ''put'' (JObj [(''key'', key), (''fields'', field_map)]) c w
          = Some (Inr (JObj kvs), c', w') \<longrightarrow>
        put E key field_map c w = Some (Inl AttributeError, c', w'))
   \<and> (call E ''delete'' (JObj [(''key'', key)]) c w = Some (Inr (JObj kvs), c', w') \<longrightarrow>
        delete E key c w = Some (Inl AttributeError, c', w'))
   \<and> (call E ''scan'' (JObj [(''prefix'', key)]) c w = Some (Inr (JObj kvs), c', w') \<longrightarrow>
        scan E key c w = Some (Inl AttributeError, c', w'))
   \<and> (call E ''reportOutcome''
          (JObj ([(''insightId'', key), (''result'', outcome)]
                 @ (if context \<noteq> JNull then [(''context'', context)] else []))) c w
          = Some (Inr (JObj kvs), c', w') \<longrightarrow>
        report_outcome E key outcome context c w = Some (Inl AttributeError, c', w'))
   \<and> (call E ''subscribe'' (JObj [(''events'', key)]) c w = Some (Inr (JObj kvs), c', w') \<longrightarrow>
        subscribe E key c w = Some (Inl AttributeError, c', w'))
   \<and> (call E ''unsubscribe'' (JObj [(''subscriptionId'', key)]) c w
          = Some (Inr (JObj kvs), c', w') \<longrightarrow>
        unsubscribe E key c w = Some (Inl AttributeError, c', w'))"
proof (intro impI, elim conjE)
  assume e: "map_of kvs ''error'' = None \<or> (\<exists>v. map_of kvs ''error'' = Some v \<and> \<not> truthy v)"
    and r: "map_of kvs ''result'' = None \<or> map_of kvs ''result'' = Some JNull"
  from r have u: "unwrap_result (JObj kvs) = Inr JNull"
    by (auto simp: unwrap_result_falsy [OF e])
  show "unwrap_result (JObj kvs) = Inr JNull
   \<and> (call E ''put'' (JObj [(''key'', key), (''fields'', field_map)]) c w
          = Some (Inr (JObj kvs), c', w') \<longrightarrow>
        put E key field_map c w = Some (Inl AttributeError, c', w'))
   \<and> (call E ''delete'' (JObj [(''key'', key)]) c w = Some (Inr (JObj kvs), c', w') \<longrightarrow>
        delete E key c w = Some (Inl AttributeError, c', w'))
   \<and> (call E ''scan'' (JObj [(''prefix'', key)]) c w = Some (Inr (JObj kvs), c', w') \<longrightarrow>
        scan E key c w = Some (Inl AttributeError, c', w'))
   \<and> (call E ''reportOutcome''
          (JObj ([(''insightId'', key), (''result'', outcome)]
                 @ (if context \<noteq> JNull then [(''context'', context)] else []))) c w
          = Some (Inr (JObj kvs), c', w') \<longrightarrow>
        report_outcome E key outcome context c w = Some (Inl AttributeError, c', w'))
   \<and> (call E ''subscribe'' (JObj [(''events'', key)]) c w = Some (Inr (JObj kvs), c', w') \<longrightarrow>
        subscribe E key c w = Some (Inl AttributeError, c', w'))
   \<and> (call E ''unsubscribe'' (JObj [(''subscriptionId'', key)]) c w
          = Some (Inr (JObj kvs), c', w') \<longrightarrow>
        unsubscribe E key c w = Some (Inl AttributeError, c', w'))"
    by (simp add: u put_def delete_def scan_def report_outcome_def subscribe_def unsubscribe_def
        on_response_def and_then_def py_get_null)
qed

theorem null_result_attribute_error_witness:
  "(map_of [(''id'', JInt 1)] ''error'' = None \<and> map_of [(''id'', JInt 1)] ''result'' = None)
   \<and> put (demo_env (\<lambda>p. None) (\<lambda>n. None) (\<lambda>s k. Inr (''N'' @ [newline]))) (JStr ''k'') (JObj [])
        (demo_client (Some ''tok'') 3 0) world0
      = Some (Inl AttributeError, (demo_client (Some ''tok'') 3 0)\<lparr>request_id := 2, pool := [0]\<rparr>,
               world0\<lparr>sockets_made := 1, sends_done := (\<lambda>s. 0)(0 := 1), recvs_done := (\<lambda>s. 0)(0 := 1),
                 trace := [EvAttempt 0, EvConnect 0,
                   EvSendall 0 (''req'' @ [newline]), EvRecv 0]\<rparr>)
   \<and> scan (demo_env (\<lambda>p. None) (\<lambda>n. None) (\<lambda>s k. Inr (''N'' @ [newline]))) (JStr ''k'')
        (demo_client (Some ''tok'') 3 0) world0
      = Some (Inl AttributeError, (demo_client (Some ''tok'') 3 0)\<lparr>request_id := 2, pool := [0]\<rparr>,
               world0\<lparr>sockets_made := 1, sends_done := (\<lambda>s. 0)(0 := 1), recvs_done := (\<lambda>s. 0)(0 := 1),
                 trace := [EvAttempt 0, EvConnect 0,
                   EvSendall 0 (''req'' @ [newline]), EvRecv 0]\<rparr>)
   \<and> subscribe (demo_env (\<lambda>p. None) (\<lambda>n. None) (\<lambda>s k. Inr (''N'' @ [newline]))) (JArr [])
        (demo_client (Some ''tok'') 3 0) world0
      = Some (Inl AttributeError, (demo_client (Some ''tok'') 3 0)\<lparr>request_id := 2, pool := [0]\<rparr>,
               world0\<lparr>sockets_made := 1, sends_done := (\<lambda>s. 0)(0 := 1), recvs_done := (\<lambda>s. 0)(0 := 1),
                 trace := [EvAttempt 0, EvConnect 0,
                   EvSendall 0 (''req'' @ [newline]), EvRecv 0]\<rparr>)"
proof -
  have c: "call (demo_env (\<lambda>p. None) (\<lambda>n. None) (\<lambda>s k. Inr (''N'' @ [newline]))) m p
        (demo_client (Some ''tok'') 3 0) world0
      = Some (Inr (JObj [(''id'', JInt 1)]),
               (demo_client (Some ''tok'') 3 0)\<lparr>request_id := 2, pool := [0]\<rparr>,
               world0\<lparr>sockets_made := 1, sends_done := (\<lambda>s. 0)(0 := 1), recvs_done := (\<lambda>s. 0)(0 := 1),
                 trace := [EvAttempt 0, EvConnect 0,
                   EvSendall 0 (''req'' @ [newline]), EvRecv 0]\<rparr>)" for m p
    using demo_call [OF newline_not_in_R(2) demo_loads_N, of 3 "[]" m p 0] by simp
  show ?thesis
    using null_result_attribute_error
      [where kvs = "[(''id'', JInt 1)]"
         and E = "demo_env (\<lambda>p. None) (\<lambda>n. None) (\<lambda>s k. Inr (''N'' @ [newline]))"
         and c = "demo_client (Some ''tok'') 3 0" and w = world0
         and c' = "(demo_client (Some ''tok'') 3 0)\<lparr>request_id := 2, pool := [0]\<rparr>"
         and w' = "world0\<lparr>sockets_made := 1, sends_done := (\<lambda>s. 0)(0 := 1),
                 recvs_done := (\<lambda>s. 0)(0 := 1),
                 trace := [EvAttempt 0, EvConnect 0,
                   EvSendall 0 (''req'' @ [newline]), EvRecv 0]\<rparr>"
         and key = "JStr ''k''" and field_map = "JObj []"]
      null_result_attribute_error
      [where kvs = "[(''id'', JInt 1)]"
         and E = "demo_env (\<lambda>p. None) (\<lambda>n. None) (\<lambda>s k. Inr (''N'' @ [newline]))"
         and c = "demo_client (Some ''tok'') 3 0" and w = world0
         and c' = "(demo_client (Some ''tok'') 3 0)\<lparr>request_id := 2, pool := [0]\<rparr>"
         and w' = "world0\<lparr>sockets_made := 1, sends_done := (\<lambda>s. 0)(0 := 1),
                 recvs_done := (\<lambda>s. 0)(0 := 1),
                 trace := [EvAttempt 0, EvConnect 0,
                   EvSendall 0 (''req'' @ [newline]), EvRecv 0]\<rparr>"
         and key = "JArr []"]
    unfolding c by simp
qed

text \<open>
  Claim C4. The constructor makes the capacity at least one and the pool empty. A
  healthy release appends the connection when the pool holds fewer connections than
  the capacity, and closes it otherwise. So after any sequence of releases on a pool
  within its capacity the pool is still within it, the capacity is what it was, and
  every connection released is in the pool or closed.
\<close>

theorem pool_bounded_by_capacity:
  "pool_size (init E a t r d rt ps) = max 1 ps \<and> pool (init E a t r d rt ps) = []
   \<and> release_unix_socket (Some s) True c w =
        (if int (length (pool c)) < pool_size c then (c\<lparr>pool := pool c @ [s]\<rparr>, w)
         else (c, sock_close s w))
   \<and> s \<in> closed (sock_close s w)
   \<and> (int (length (pool c)) \<le> pool_size c \<longrightarrow>
        int (length (pool (fst (release_all rs c w)))) \<le> pool_size c
        \<and> pool_size (fst (release_all rs c w)) = pool_size c
        \<and> (\<forall>x h. (Some x, h) \<in> set rs \<longrightarrow>
              x \<in> set (pool (fst (release_all rs c w))) \<or> x \<in> closed (snd (release_all rs c w))))"
  using release_all_props [of c rs w]
  by (simp add: init_def release_unix_socket_def sock_close_def log_def)

theorem pool_bounded_by_capacity_witness:
  "int (length (pool (demo_client None 3 0))) \<le> pool_size (demo_client None 3 0)
   \<and> pool_size (demo_client None 3 0) = 4
   \<and> int (length (pool (fst (release_all
          [(Some 0, True), (Some 1, True), (Some 2, True), (Some 3, True), (Some 4, True)]
          (demo_client None 3 0) world0)))) \<le> 4
   \<and> (4 \<in> set (pool (fst (release_all
          [(Some 0, True), (Some 1, True), (Some 2, True), (Some 3, True), (Some 4, True)]
          (demo_client None 3 0) world0)))
      \<or> 4 \<in> closed (snd (release_all
          [(Some 0, True), (Some 1, True), (Some 2, True), (Some 3, True), (Some 4, True)]
          (demo_client None 3 0) world0)))
   \<and> release_all
          [(Some 0, True), (Some 1, True), (Some 2, True), (Some 3, True), (Some 4, True)]
          (demo_client None 3 0) world0
       = ((demo_client None 3 0)\<lparr>pool := [0, 1, 2, 3]\<rparr>,
          world0\<lparr>closed := {4}, trace := [EvClose 4]\<rparr>)"
  using pool_bounded_by_capacity
    [where c = "demo_client None 3 0" and w = world0
       and rs = "[(Some 0, True), (Some 1, True), (Some 2, True), (Some 3, True), (Some 4, True)]"]
  by (simp add: demo_client_def init_def release_unix_socket_def sock_close_def log_def world0_def)






end
